theory Spec2Isabelle
  imports Main "HOL-Library.List_Lexorder" "HOL-Library.Sublist" "HOL-Library.Multiset"
begin

section \<open>Python values\<close>

text \<open>
  A Python \<open>str\<close> is a sequence of Unicode code points, and \<open>sorted\<close> compares two of them
  code point by code point, a proper prefix coming first. That is the lexicographic order
  of lists, so a \<open>str\<close> is a list of code points. The program's own literals are Russian;
  their Cyrillic letters are written as code points, their ASCII runs with \<open>ascii\<close>.
\<close>

type_synonym pystr = "nat list"

definition ascii :: "string \<Rightarrow> pystr" where
  "ascii s = map of_char s"

text \<open>
  The values the program handles. A \<open>dict\<close> keeps insertion order and is an association
  list; \<open>map_of\<close> reads it.
\<close>

datatype pyval =
    PNone
  | PBool bool
  | PInt int
  | PStr pystr
  | PList "pyval list"
  | PDict "(pystr \<times> pyval) list"

type_synonym pydict = "(pystr \<times> pyval) list"

text \<open>Truth value testing, as \<open>not x\<close> and \<open>if x\<close> do it.\<close>

fun truthy :: "pyval \<Rightarrow> bool" where
  "truthy PNone = False"
| "truthy (PBool b) = b"
| "truthy (PInt i) = (i \<noteq> 0)"
| "truthy (PStr s) = (s \<noteq> [])"
| "truthy (PList xs) = (xs \<noteq> [])"
| "truthy (PDict kvs) = (kvs \<noteq> [])"

text \<open>\<open>d.get(k)\<close> and \<open>d.get(k, default)\<close>: a missing key gives \<open>None\<close>, or the default.\<close>

definition py_get_default :: "pydict \<Rightarrow> pystr \<Rightarrow> pyval \<Rightarrow> pyval" where
  "py_get_default d k dflt = (case map_of d k of None \<Rightarrow> dflt | Some v \<Rightarrow> v)"

definition py_get :: "pydict \<Rightarrow> pystr \<Rightarrow> pyval" where
  "py_get d k = py_get_default d k PNone"

text \<open>\<open>k in d\<close>.\<close>

definition py_in :: "pystr \<Rightarrow> pydict \<Rightarrow> bool" where
  "py_in k d = (map_of d k \<noteq> None)"

text \<open>
  \<open>d[k] = v\<close>: an existing key keeps its place and takes the new value, a new key goes to
  the end.
\<close>

fun py_setitem :: "pydict \<Rightarrow> pystr \<Rightarrow> pyval \<Rightarrow> pydict" where
  "py_setitem [] k v = [(k, v)]"
| "py_setitem (p # ps) k v = (if fst p = k then (k, v) # ps else p # py_setitem ps k v)"

text \<open>
  \<open>d[k]\<close> where the dict holds \<open>k\<close>. The report writer subscripts only the dicts built by
  the loop above it, which hold every key it reads (lemma \<open>detail_of_cookie_keys\<close>), so
  its \<open>KeyError\<close> is out of reach and has no branch here.
\<close>

definition py_item :: "pydict \<Rightarrow> pystr \<Rightarrow> pyval" where
  "py_item d k = (case map_of d k of Some v \<Rightarrow> v | None \<Rightarrow> PNone)"

text \<open>The elements a \<open>for\<close> loop takes from a list value.\<close>

fun py_list :: "pyval \<Rightarrow> pyval list" where
  "py_list (PList xs) = xs"
| "py_list _ = []"

text \<open>Decimal digits of a natural number, most significant first; 48 is the digit zero.\<close>

fun digits :: "nat \<Rightarrow> pystr" where
  "digits n = (if n < 10 then [48 + n] else digits (n div 10) @ [48 + n mod 10])"

declare digits.simps [simp del]

text \<open>
  \<open>str(x)\<close>, which is what an f-string field \<open>{x}\<close> inserts. The \<open>repr\<close>-based text of a
  list or dict is left unspecified: the program formats scalars only.
\<close>

fun py_str :: "pyval \<Rightarrow> pystr" where
  "py_str PNone = ascii ''None''"
| "py_str (PBool b) = (if b then ascii ''True'' else ascii ''False'')"
| "py_str (PInt i) = (if i < 0 then 45 # digits (nat (- i)) else digits (nat i))"
| "py_str (PStr s) = s"
| "py_str (PList xs) = undefined"
| "py_str (PDict kvs) = undefined"

section \<open>The per-cookie evaluator\<close>

text \<open>
  The three recommendation strings of \<open>_get_cookie_security_recommendations\<close>, lines 12,
  14 and 16 of \<open>parser.py\<close>. In English: "Set the flag Secure", "Set the flag HttpOnly" and
  "Set the attribute SameSite (recommended values: "Strict" or "Lax")", the last with
  double quotes (code point 34) around \<open>Strict\<close> and \<open>Lax\<close>.
\<close>

definition rec_secure :: pystr where
  "rec_secure =
     [1059, 1089, 1090, 1072, 1085, 1086, 1074, 1080, 1090, 1100, 32, 1092, 1083, 1072, 1075]
     @ ascii '' Secure''"

definition rec_httponly :: pystr where
  "rec_httponly =
     [1059, 1089, 1090, 1072, 1085, 1086, 1074, 1080, 1090, 1100, 32, 1092, 1083, 1072, 1075]
     @ ascii '' HttpOnly''"

definition rec_samesite :: pystr where
  "rec_samesite =
     [1059, 1089, 1090, 1072, 1085, 1086, 1074, 1080, 1090, 1100, 32, 1072, 1090, 1088, 1080,
     1073, 1091, 1090] @ ascii '' SameSite ('' @ [1088, 1077, 1082, 1086, 1084, 1077, 1085,
     1076, 1091, 1077, 1084, 1099, 1077, 32, 1079, 1085, 1072, 1095, 1077, 1085, 1080, 1103, 58,
     32, 34] @ ascii ''Strict'' @ [34, 32, 1080, 1083, 1080, 32, 34] @ ascii ''Lax'' @ [34, 41]"

text \<open>
  \<^verbatim>\<open>
  recommendations = []
  if not cookie_attributes.get('secure'):         recommendations.append(...)
  if not cookie_attributes.get('httponly'):       recommendations.append(...)
  if not cookie_attributes.get('samesite_value'): recommendations.append(...)
  return recommendations
  \<close>
\<close>

definition get_cookie_security_recommendations :: "pydict \<Rightarrow> pystr list" where
  "get_cookie_security_recommendations cookie_attributes =
     (let recommendations = [];
          recommendations =
            (if \<not> truthy (py_get cookie_attributes (ascii ''secure''))
             then recommendations @ [rec_secure] else recommendations);
          recommendations =
            (if \<not> truthy (py_get cookie_attributes (ascii ''httponly''))
             then recommendations @ [rec_httponly] else recommendations);
          recommendations =
            (if \<not> truthy (py_get cookie_attributes (ascii ''samesite_value''))
             then recommendations @ [rec_samesite] else recommendations)
      in recommendations)"

section \<open>The scan\<close>

subsection \<open>What the scan reads from outside\<close>

text \<open>
  The attributes of a \<open>requests\<close> cookie that \<open>scan_cookies\<close> reads: \<open>name\<close>, \<open>value\<close>,
  \<open>domain\<close>, \<open>path\<close>, \<open>secure\<close>, \<open>expires\<close> and the dict \<open>_rest\<close> of non-standard attributes.
\<close>

record cookie =
  cookie_name :: pyval
  cookie_value :: pyval
  cookie_domain :: pyval
  cookie_path :: pyval
  cookie_secure :: pyval
  cookie_expires :: pyval
  cookie_rest :: pydict

text \<open>The response: \<open>status_code\<close> and the cookies of its jar, in iteration order.\<close>

record response =
  response_status_code :: pyval
  response_cookies :: "cookie list"

text \<open>
  An exception is told apart only by the two handlers of \<open>scan_cookies\<close>: it is a
  \<open>requests.exceptions.RequestException\<close> or it is not. It carries its text \<open>str(e)\<close>.
\<close>

datatype exn = RequestException pystr | OtherException pystr

text \<open>
  The library calls and the file system, as parameters of the scan:
  \<^item> \<open>requests_get url\<close>: the outcome of \<open>requests.get(url, timeout=10, headers=headers)\<close>;
  \<^item> \<open>raise_for_status r\<close>: the text of the \<open>HTTPError\<close> (a \<open>RequestException\<close>) that
    \<open>r.raise_for_status()\<close> raises, if it raises;
  \<^item> \<open>fromtimestamp_isoformat t\<close>: \<open>datetime.fromtimestamp(t).isoformat()\<close>, or on the left
    the text of the \<open>OverflowError\<close>, \<open>ValueError\<close> or \<open>OSError\<close> it raises;
  \<^item> \<open>now_isoformat n\<close>: what the call number \<open>n\<close> of \<open>datetime.now().isoformat()\<close> returns;
  \<^item> \<open>open_doc_txt_error\<close>: the text of the \<open>OSError\<close> that
    \<open>open('doc.txt', 'w', encoding='utf-8')\<close> raises, if the file cannot be opened;
  \<^item> \<open>store_error text\<close>: once the file is open, \<open>Some (msg, left)\<close> if putting \<open>text\<close> into it
    fails (a full disk, say): a write or the closing flush raises an \<open>OSError\<close> with the
    text \<open>msg\<close>, and \<open>left\<close> is what \<open>doc.txt\<close> holds afterwards.
\<close>

record env =
  requests_get :: "pystr \<Rightarrow> exn + response"
  raise_for_status :: "response \<Rightarrow> pystr option"
  fromtimestamp_isoformat :: "pyval \<Rightarrow> pystr + pystr"
  now_isoformat :: "nat \<Rightarrow> pystr"
  open_doc_txt_error :: "pystr option"
  store_error :: "pystr \<Rightarrow> (pystr \<times> pystr) option"

text \<open>
  What the scan changes outside: the content of \<open>doc.txt\<close> (\<open>None\<close> while the file does not
  exist) and the lines printed to the console.
\<close>

record world =
  doc_txt :: "pystr option"
  console :: "pystr list"

subsection \<open>The fixed texts of the report\<close>

definition txt_results_for_url :: pystr where
  \<comment> \<open>line 86: "Cookie scan results for URL: "\<close>
  "txt_results_for_url =
     [1056, 1077, 1079, 1091, 1083, 1100, 1090, 1072, 1090, 1099, 32, 1089, 1082, 1072, 1085,
     1080, 1088, 1086, 1074, 1072, 1085, 1080, 1103] @ ascii '' cookie '' @ [1076, 1083, 1103]
     @ ascii '' URL: ''"

definition txt_scan_time :: pystr where
  \<comment> \<open>line 87: "Scan time: "\<close>
  "txt_scan_time =
     [1042, 1088, 1077, 1084, 1103, 32, 1089, 1082, 1072, 1085, 1080, 1088, 1086, 1074, 1072,
     1085, 1080, 1103, 58, 32]"

definition txt_status_code :: pystr where
  \<comment> \<open>line 88: "HTTP Status Code of the response: "\<close>
  "txt_status_code =
     ascii ''HTTP Status Code '' @ [1086, 1090, 1074, 1077, 1090, 1072, 58, 32]"

definition txt_total_found :: pystr where
  \<comment> \<open>line 89: "Cookies found in total: "\<close>
  "txt_total_found =
     [1042, 1089, 1077, 1075, 1086, 32, 1085, 1072, 1081, 1076, 1077, 1085, 1086]
     @ ascii '' cookie: ''"

definition txt_no_cookies :: pystr where
  \<comment> \<open>line 92: "No cookies found or the server did not set any." and a newline\<close>
  "txt_no_cookies =
     ascii ''Cookies '' @ [1085, 1077, 32, 1085, 1072, 1081, 1076, 1077, 1085, 1099, 32, 1080,
     1083, 1080, 32, 1089, 1077, 1088, 1074, 1077, 1088, 32, 1080, 1093, 32, 1085, 1077, 32,
     1091, 1089, 1090, 1072, 1085, 1086, 1074, 1080, 1083, 46, 10]"

definition txt_cookie_no :: pystr where
  \<comment> \<open>line 95, before the number\<close>
  "txt_cookie_no =
     ascii ''--- Cookie #''"

definition txt_cookie_no_end :: pystr where
  \<comment> \<open>line 95, after the number\<close>
  "txt_cookie_no_end =
     ascii '' ---'' @ [10]"

definition txt_name :: pystr where
  \<comment> \<open>line 96: "Name: "\<close>
  "txt_name =
     [1048, 1084, 1103, 58, 32]"

definition txt_domain :: pystr where
  \<comment> \<open>line 98: "Domain: "\<close>
  "txt_domain =
     [1044, 1086, 1084, 1077, 1085, 58, 32]"

definition txt_path :: pystr where
  \<comment> \<open>line 99: "Path: "\<close>
  "txt_path =
     [1055, 1091, 1090, 1100, 58, 32]"

definition txt_attr_secure :: pystr where
  \<comment> \<open>line 100: "Attribute Secure: "\<close>
  "txt_attr_secure =
     [1040, 1090, 1088, 1080, 1073, 1091, 1090] @ ascii '' Secure: ''"

definition txt_attr_httponly :: pystr where
  \<comment> \<open>line 101: "Attribute HttpOnly: "\<close>
  "txt_attr_httponly =
     [1040, 1090, 1088, 1080, 1073, 1091, 1090] @ ascii '' HttpOnly: ''"

definition txt_attr_samesite :: pystr where
  \<comment> \<open>line 102: "Attribute SameSite: "\<close>
  "txt_attr_samesite =
     [1040, 1090, 1088, 1080, 1073, 1091, 1090] @ ascii '' SameSite: ''"

definition txt_not_set :: pystr where
  \<comment> \<open>line 102: "Not set"\<close>
  "txt_not_set =
     [1053, 1077, 32, 1091, 1089, 1090, 1072, 1085, 1086, 1074, 1083, 1077, 1085]"

definition txt_expires :: pystr where
  \<comment> \<open>line 103: "Expires (Expires/Max-Age): "\<close>
  "txt_expires =
     [1048, 1089, 1090, 1077, 1082, 1072, 1077, 1090] @ ascii '' (Expires/Max-Age): ''"

definition txt_session :: pystr where
  \<comment> \<open>line 103: "Session (or not given)"\<close>
  "txt_session =
     [1057, 1077, 1089, 1089, 1080, 1086, 1085, 1085, 1072, 1103, 32, 40, 1080, 1083, 1080, 32,
     1085, 1077, 32, 1091, 1082, 1072, 1079, 1072, 1085, 1086, 41]"

definition txt_cookie_recs :: pystr where
  \<comment> \<open>line 106: "Recommendations for improving security:" and a newline\<close>
  "txt_cookie_recs =
     [1056, 1077, 1082, 1086, 1084, 1077, 1085, 1076, 1072, 1094, 1080, 1080, 32, 1087, 1086,
     32, 1091, 1083, 1091, 1095, 1096, 1077, 1085, 1080, 1102, 32, 1073, 1077, 1079, 1086, 1087,
     1072, 1089, 1085, 1086, 1089, 1090, 1080, 58, 10]"

definition txt_site_recs :: pystr where
  \<comment> \<open>lines 112 and 116: newline, "--- General security recommendations for the site ---", newline\<close>
  "txt_site_recs =
     [10] @ ascii ''--- '' @ [1054, 1073, 1097, 1080, 1077, 32, 1088, 1077, 1082, 1086, 1084,
     1077, 1085, 1076, 1072, 1094, 1080, 1080, 32, 1087, 1086, 32, 1073, 1077, 1079, 1086, 1087,
     1072, 1089, 1085, 1086, 1089, 1090, 1080, 32, 1076, 1083, 1103, 32, 1089, 1072, 1081, 1090,
     1072] @ ascii '' ---'' @ [10]"

definition txt_no_issues :: pystr where
  \<comment> \<open>line 117: "For the analysed cookies no obvious omissions were found in the basic security flags (Secure, HttpOnly, SameSite)." and a newline\<close>
  "txt_no_issues =
     [1044, 1083, 1103, 32, 1087, 1088, 1086, 1072, 1085, 1072, 1083, 1080, 1079, 1080, 1088,
     1086, 1074, 1072, 1085, 1085, 1099, 1093] @ ascii '' cookie '' @ [1085, 1077, 32, 1085,
     1072, 1081, 1076, 1077, 1085, 1086, 32, 1086, 1095, 1077, 1074, 1080, 1076, 1085, 1099,
     1093, 32, 1091, 1087, 1091, 1097, 1077, 1085, 1080, 1081, 32, 1074, 32, 1073, 1072, 1079,
     1086, 1074, 1099, 1093, 32, 1092, 1083, 1072, 1075, 1072, 1093, 32, 1073, 1077, 1079, 1086,
     1087, 1072, 1089, 1085, 1086, 1089, 1090, 1080] @ ascii '' (Secure, HttpOnly, SameSite).''
     @ [10]"

definition txt_request_error :: pystr where
  \<comment> \<open>line 122: "Error while requesting the URL: "\<close>
  "txt_request_error =
     [1054, 1096, 1080, 1073, 1082, 1072, 32, 1087, 1088, 1080, 32, 1079, 1072, 1087, 1088,
     1086, 1089, 1077, 32, 1082] @ ascii '' URL: ''"

definition txt_scan_error_for_url :: pystr where
  \<comment> \<open>line 129: "Scan error for URL: "\<close>
  "txt_scan_error_for_url =
     [1054, 1096, 1080, 1073, 1082, 1072, 32, 1089, 1082, 1072, 1085, 1080, 1088, 1086, 1074,
     1072, 1085, 1080, 1103, 32, 1076, 1083, 1103] @ ascii '' URL: ''"

definition txt_time :: pystr where
  \<comment> \<open>line 130: "Time: "\<close>
  "txt_time =
     [1042, 1088, 1077, 1084, 1103, 58, 32]"

definition txt_error :: pystr where
  \<comment> \<open>line 131: "Error: "\<close>
  "txt_error =
     [1054, 1096, 1080, 1073, 1082, 1072, 58, 32]"

definition txt_critical :: pystr where
  \<comment> \<open>line 134: "Critical error while writing the log: "\<close>
  "txt_critical =
     [1050, 1088, 1080, 1090, 1080, 1095, 1077, 1089, 1082, 1072, 1103, 32, 1086, 1096, 1080,
     1073, 1082, 1072, 32, 1087, 1088, 1080, 32, 1079, 1072, 1087, 1080, 1089, 1080, 32, 1083,
     1086, 1075, 1072, 58, 32]"

definition txt_unexpected :: pystr where
  \<comment> \<open>line 139: "Unexpected error: "\<close>
  "txt_unexpected =
     [1053, 1077, 1087, 1088, 1077, 1076, 1074, 1080, 1076, 1077, 1085, 1085, 1072, 1103, 32,
     1086, 1096, 1080, 1073, 1082, 1072, 58, 32]"

subsection \<open>One cookie\<close>

text \<open>
  Lines 56 to 69: the dict \<open>cookie_info\<close>. Its entries are evaluated in the order written,
  and only the last one, \<open>expires\<close>, can raise.
\<close>

definition cookie_info :: "env \<Rightarrow> cookie \<Rightarrow> exn + pydict" where
  "cookie_info env cookie =
     (let samesite_val =
            py_get_default (cookie_rest cookie) (ascii ''SameSite'')
              (py_get (cookie_rest cookie) (ascii ''samesite''));
          httponly =
            (py_in (ascii ''HttpOnly'') (cookie_rest cookie) \<or>
             py_in (ascii ''httponly'') (cookie_rest cookie));
          expires =
            (if truthy (cookie_expires cookie)
             then (case fromtimestamp_isoformat env (cookie_expires cookie) of
                     Inl msg \<Rightarrow> Inl (OtherException msg)
                   | Inr stamp \<Rightarrow> Inr (PStr stamp))
             else Inr PNone)
      in case expires of
           Inl e \<Rightarrow> Inl e
         | Inr expires_val \<Rightarrow>
             Inr [(ascii ''name'', cookie_name cookie),
                  (ascii ''value'', cookie_value cookie),
                  (ascii ''domain'', cookie_domain cookie),
                  (ascii ''path'', cookie_path cookie),
                  (ascii ''secure'', cookie_secure cookie),
                  (ascii ''httponly'', PBool httponly),
                  (ascii ''samesite_value'', samesite_val),
                  (ascii ''expires'', expires_val)])"

text \<open>
  Lines 71 and 72: \<open>cookie_info['recommendations'] = recommendations\<close>, the entry of
  \<open>cookie_details\<close> for one cookie.
\<close>

definition with_recommendations :: "pydict \<Rightarrow> pydict" where
  "with_recommendations info =
     py_setitem info (ascii ''recommendations'')
       (PList (map PStr (get_cookie_security_recommendations info)))"

definition detail_of_cookie :: "env \<Rightarrow> cookie \<Rightarrow> exn + pydict" where
  "detail_of_cookie env cookie =
     (case cookie_info env cookie of
        Inl e \<Rightarrow> Inl e
      | Inr info \<Rightarrow> Inr (with_recommendations info))"

subsection \<open>The loop and the site-wide list\<close>

text \<open>
  Lines 55 to 77. The state of the loop is \<open>results['cookie_details']\<close>, a list that grows
  at its end, and \<open>results['security_recommendations']\<close>, a Python set of strings. The
  loop stops at the first exception.
\<close>

fun scan_loop :: "env \<Rightarrow> cookie list \<Rightarrow> pydict list \<times> pystr set \<Rightarrow> exn + pydict list \<times> pystr set" where
  "scan_loop env [] (cookie_details, security_recommendations) =
     Inr (cookie_details, security_recommendations)"
| "scan_loop env (cookie # cookies) (cookie_details, security_recommendations) =
     (case cookie_info env cookie of
        Inl e \<Rightarrow> Inl e
      | Inr info \<Rightarrow>
          (let recommendations = get_cookie_security_recommendations info;
               info' = py_setitem info (ascii ''recommendations'') (PList (map PStr recommendations));
               cookie_details' = cookie_details @ [info'];
               security_recommendations' =
                 (if recommendations \<noteq> []
                  then fold insert recommendations security_recommendations
                  else security_recommendations)
           in scan_loop env cookies (cookie_details', security_recommendations')))"

text \<open>
  Line 80: \<open>sorted(list(s))\<close>. \<open>list(s)\<close> lists the set in an order Python does not fix,
  and sorting any such list gives the one sorted list of the set (lemma
  \<open>py_sorted_set_any_order\<close>).
\<close>

definition py_sorted_set :: "pystr set \<Rightarrow> pystr list" where
  "py_sorted_set s = sorted_list_of_set s"

text \<open>
  Lines 55 to 80 together, from the empty list and the empty set of lines 36 and 37: the
  entries of \<open>cookie_details\<close> and the sorted site-wide list.
\<close>

definition scan_aggregate :: "env \<Rightarrow> cookie list \<Rightarrow> exn + pydict list \<times> pystr list" where
  "scan_aggregate env cookies =
     (case scan_loop env cookies ([], {}) of
        Inl e \<Rightarrow> Inl e
      | Inr (cookie_details, security_recommendations) \<Rightarrow>
          Inr (cookie_details, py_sorted_set security_recommendations))"

subsection \<open>Writing \<open>doc.txt\<close>\<close>

text \<open>
  The file is opened with \<open>encoding='utf-8'\<close>. UTF-8 encodes every code point of a \<open>str\<close> but
  the surrogates, U+D800 to U+DFFF. \<open>f.write(s)\<close> encodes \<open>s\<close> at once: if \<open>s\<close> holds a
  surrogate it raises \<open>UnicodeEncodeError\<close> and nothing of \<open>s\<close> is written.
\<close>

definition surrogate :: "nat \<Rightarrow> bool" where
  "surrogate c = (55296 \<le> c \<and> c \<le> 57343)"

definition encodable :: "pystr \<Rightarrow> bool" where
  "encodable s = list_all (\<lambda>c. \<not> surrogate c) s"

text \<open>
  The text \<open>str(e)\<close> of that \<open>UnicodeEncodeError\<close>, as CPython words it. It names the first run
  of surrogates in \<open>s\<close>: for a single one,
  \<^verbatim>\<open>'utf-8' codec can't encode character '\udcff' in position 29: surrogates not allowed\<close>
  with four lower-case hexadecimal digits, and for a longer run
  \<^verbatim>\<open>'utf-8' codec can't encode characters in position 2-3: surrogates not allowed\<close>.
  Code point 39 is the single quote, 92 the backslash.
\<close>

definition hex_digit :: "nat \<Rightarrow> nat" where
  "hex_digit d = (if d < 10 then 48 + d else 87 + d)"

definition hex4 :: "nat \<Rightarrow> pystr" where
  "hex4 c = map hex_digit [c div 4096 mod 16, c div 256 mod 16, c div 16 mod 16, c mod 16]"

definition unicode_encode_error :: "pystr \<Rightarrow> pystr" where
  "unicode_encode_error s =
     (let start = length (takeWhile (\<lambda>c. \<not> surrogate c) s);
          run = takeWhile surrogate (drop start s)
      in if length run = 1
         then [39] @ ascii ''utf-8'' @ [39] @ ascii '' codec can'' @ [39] @
              ascii ''t encode character '' @ [39, 92] @ ascii ''u'' @ hex4 (hd run) @ [39] @
              ascii '' in position '' @ digits start @ ascii '': surrogates not allowed''
         else [39] @ ascii ''utf-8'' @ [39] @ ascii '' codec can'' @ [39] @
              ascii ''t encode characters in position '' @ digits start @ ascii ''-'' @
              digits (start + length run - 1) @ ascii '': surrogates not allowed'')"

text \<open>
  A sequence of \<open>f.write\<close> calls, given by their arguments in order and the text written so
  far: the text that got through, and the text of the \<open>UnicodeEncodeError\<close> that stopped the
  sequence, if one did.
\<close>

fun write_all :: "pystr list \<Rightarrow> pystr \<Rightarrow> pystr \<times> pystr option" where
  "write_all [] written = (written, None)"
| "write_all (s # rest) written =
     (if encodable s then write_all rest (written @ s)
      else (written, Some (unicode_encode_error s)))"

text \<open>The text \<open>str(e)\<close> of an exception.\<close>

fun exn_text :: "exn \<Rightarrow> pystr" where
  "exn_text (RequestException msg) = msg"
| "exn_text (OtherException msg) = msg"

text \<open>
  \<^verbatim>\<open>with open('doc.txt', 'w', encoding='utf-8') as f: f.write(..); f.write(..); ...\<close>
  with the arguments of the \<open>f.write\<close> calls in order: the exception that leaves the block, if
  any, and the world afterwards.
  \<^item> If \<open>open\<close> raises, nothing has changed.
  \<^item> Otherwise the file is emptied, the writes run up to the first that cannot be encoded,
    and leaving the block closes the file, which stores what was written.
  \<^item> If storing fails, its \<open>OSError\<close> is the exception that leaves the block, also when a
    \<open>UnicodeEncodeError\<close> was on its way, and the file holds what the failure left.
\<close>

definition write_doc_txt :: "env \<Rightarrow> pystr list \<Rightarrow> world \<Rightarrow> exn option \<times> world" where
  "write_doc_txt env writes w =
     (case open_doc_txt_error env of
        Some msg \<Rightarrow> (Some (OtherException msg), w)
      | None \<Rightarrow>
          (case write_all writes [] of
             (written, encode_error) \<Rightarrow>
               (case store_error env written of
                  Some (msg, left) \<Rightarrow> (Some (OtherException msg), w\<lparr>doc_txt := Some left\<rparr>)
                | None \<Rightarrow>
                    (map_option OtherException encode_error, w\<lparr>doc_txt := Some written\<rparr>))))"

subsection \<open>The report file\<close>

text \<open>
  Lines 95 to 109: the arguments of the \<open>f.write\<close> calls for one cookie, in order; \<open>idx\<close>
  counts from 0.
\<close>

definition cookie_writes :: "nat \<Rightarrow> pydict \<Rightarrow> pystr list" where
  "cookie_writes idx cookie_detail =
     [txt_cookie_no @ py_str (PInt (int idx + 1)) @ txt_cookie_no_end,
      txt_name @ py_str (py_item cookie_detail (ascii ''name'')) @ [10],
      txt_domain @ py_str (py_item cookie_detail (ascii ''domain'')) @ [10],
      txt_path @ py_str (py_item cookie_detail (ascii ''path'')) @ [10],
      txt_attr_secure @ py_str (py_item cookie_detail (ascii ''secure'')) @ [10],
      txt_attr_httponly @ py_str (py_item cookie_detail (ascii ''httponly'')) @ [10],
      txt_attr_samesite @
        (if truthy (py_item cookie_detail (ascii ''samesite_value''))
         then py_str (py_item cookie_detail (ascii ''samesite_value''))
         else txt_not_set) @ [10],
      txt_expires @
        (if truthy (py_item cookie_detail (ascii ''expires''))
         then py_str (py_item cookie_detail (ascii ''expires''))
         else txt_session) @ [10]] @
     (if truthy (py_item cookie_detail (ascii ''recommendations''))
      then [txt_cookie_recs] @
           map (\<lambda>rec. ascii ''  - '' @ py_str rec @ [10])
               (py_list (py_item cookie_detail (ascii ''recommendations'')))
      else []) @
     [[10]]"

text \<open>Lines 86 to 117: the arguments of all \<open>f.write\<close> calls of the success path, in order.\<close>

definition success_writes ::
  "pystr \<Rightarrow> pystr \<Rightarrow> pyval \<Rightarrow> int \<Rightarrow> pydict list \<Rightarrow> pystr list \<Rightarrow> pystr list" where
  "success_writes url scan_time status_code cookies_found cookie_details security_recommendations =
     [txt_results_for_url @ url @ [10],
      txt_scan_time @ scan_time @ [10],
      txt_status_code @ py_str status_code @ [10],
      txt_total_found @ py_str (PInt cookies_found) @ [10, 10]] @
     (if cookie_details = [] then [txt_no_cookies] else []) @
     concat (map (\<lambda>(idx, cookie_detail). cookie_writes idx cookie_detail)
                 (enumerate 0 cookie_details)) @
     (if security_recommendations \<noteq> []
      then [txt_site_recs] @ map (\<lambda>rec. ascii ''- '' @ rec @ [10]) security_recommendations
      else [txt_site_recs, txt_no_issues])"

text \<open>Lines 129 to 131: the three \<open>f.write\<close> calls of the handler of a request failure.\<close>

definition error_writes :: "pystr \<Rightarrow> pystr \<Rightarrow> pystr \<Rightarrow> pystr list" where
  "error_writes url scan_time error =
     [txt_scan_error_for_url @ url @ [10],
      txt_time @ scan_time @ [10],
      txt_error @ error @ [10]]"

subsection \<open>\<open>scan_cookies\<close>\<close>

text \<open>
  The \<open>try\<close> block, lines 39 to 118: what it returns or raises, and the world afterwards.
  The request and the loop change nothing outside; the \<open>with\<close> block of lines 85 to 117 may
  have emptied or partly written \<open>doc.txt\<close> when its exception leaves the \<open>try\<close>. On success
  the block gives the dict \<open>results\<close>, with its five keys in the order of lines 33 to 37.
\<close>

definition scan_try :: "env \<Rightarrow> pystr \<Rightarrow> pystr \<Rightarrow> world \<Rightarrow> (exn + pydict) \<times> world" where
  "scan_try env url scan_time w =
     (case requests_get env url of
        Inl e \<Rightarrow> (Inl e, w)
      | Inr response \<Rightarrow>
     (case raise_for_status env response of
        Some msg \<Rightarrow> (Inl (RequestException msg), w)
      | None \<Rightarrow>
     (let cookies = response_cookies response;
          cookies_found = int (length cookies)
      in case scan_aggregate env cookies of
        Inl e \<Rightarrow> (Inl e, w)
      | Inr (cookie_details, security_recommendations) \<Rightarrow>
     (let results =
            [(ascii ''url'', PStr url),
             (ascii ''scan_time'', PStr scan_time),
             (ascii ''cookies_found'', PInt cookies_found),
             (ascii ''cookie_details'', PList (map PDict cookie_details)),
             (ascii ''security_recommendations'', PList (map PStr security_recommendations))]
      in case write_doc_txt env
                (success_writes url scan_time (response_status_code response)
                   cookies_found cookie_details security_recommendations) w of
        (Some e, w') \<Rightarrow> (Inl e, w')
      | (None, w') \<Rightarrow> (Inr results, w')))))"

text \<open>
  The whole function. Line 34 makes the first call of \<open>datetime.now()\<close>; each handler
  makes the second. The handler of \<open>RequestException\<close> (lines 120 to 135) writes the error
  to \<open>doc.txt\<close> inside a \<open>try\<close> of its own and prints when anything in it raises; the handler
  of every other exception (lines 136 to 142) only returns its dict.
\<close>

definition scan_cookies :: "env \<Rightarrow> pystr \<Rightarrow> world \<Rightarrow> pydict \<times> world" where
  "scan_cookies env url w =
     (let scan_time = now_isoformat env 0
      in case scan_try env url scan_time w of
        (Inr results, w') \<Rightarrow> (results, w')
      | (Inl (RequestException msg), w') \<Rightarrow>
          (let error_info =
                 [(ascii ''error'', PStr (txt_request_error @ msg)),
                  (ascii ''url'', PStr url),
                  (ascii ''scan_time'', PStr (now_isoformat env 1))]
           in case write_doc_txt env
                     (error_writes url
                        (py_str (py_item error_info (ascii ''scan_time'')))
                        (py_str (py_item error_info (ascii ''error'')))) w' of
                (None, w'') \<Rightarrow> (error_info, w'')
              | (Some write_e, w'') \<Rightarrow>
                  (error_info,
                   w''\<lparr>console := console w'' @ [txt_critical @ exn_text write_e]\<rparr>))
      | (Inl (OtherException msg), w') \<Rightarrow>
          ([(ascii ''error'', PStr (txt_unexpected @ msg)),
            (ascii ''url'', PStr url),
            (ascii ''scan_time'', PStr (now_isoformat env 1))],
           w'))"

section \<open>The specification's wording, and example inputs\<close>

text \<open>
  The site-wide list as the specification words it: the union of the recommendation
  strings of every cookie, as a set, laid out as a sequence in ascending order.
\<close>

definition site_recommendations_spec :: "pystr list list \<Rightarrow> pystr list" where
  "site_recommendations_spec per_cookie = sorted_list_of_set (\<Union> (set ` set per_cookie))"

text \<open>The three strings as the specification's scenario A spells them, in English.\<close>

definition spec_secure :: pystr where
  "spec_secure = ascii ''Set the Secure flag''"

definition spec_httponly :: pystr where
  "spec_httponly = ascii ''Set the HttpOnly flag''"

definition spec_samesite :: pystr where
  "spec_samesite =
     ascii ''Set the SameSite attribute (recommended: '' @ [39] @ ascii ''Strict'' @ [39]
     @ ascii '' or '' @ [39] @ ascii ''Lax'' @ [39, 41]"

text \<open>
  The cookie of scenario A, under the keys the evaluator reads:
  \<open>{'name': 'a', 'secure': False, 'httponly': False, 'samesite_value': None}\<close>.
\<close>

definition scenario_a :: pydict where
  "scenario_a =
     [(ascii ''name'', PStr (ascii ''a'')),
      (ascii ''secure'', PBool False),
      (ascii ''httponly'', PBool False),
      (ascii ''samesite_value'', PNone)]"

text \<open>
  The cookie of scenario B:
  \<open>{'name': 'b', 'secure': True, 'httponly': True, 'samesite_value': 'Strict'}\<close>.
\<close>

definition scenario_b :: pydict where
  "scenario_b =
     [(ascii ''name'', PStr (ascii ''b'')),
      (ascii ''secure'', PBool True),
      (ascii ''httponly'', PBool True),
      (ascii ''samesite_value'', PStr (ascii ''Strict''))]"

text \<open>
  A cookie with both flags set and the given \<open>samesite_value\<close>; with \<open>None\<close> the key is
  absent from the dict.
\<close>

definition samesite_attributes :: "pyval option \<Rightarrow> pydict" where
  "samesite_attributes v =
     [(ascii ''name'', PStr (ascii ''s'')),
      (ascii ''secure'', PBool True),
      (ascii ''httponly'', PBool True)] @
     (case v of None \<Rightarrow> [] | Some x \<Rightarrow> [(ascii ''samesite_value'', x)])"

text \<open>
  Cookies as a server can set them. \<open>plain_cookie n\<close> comes from \<open>Set-Cookie: n=1\<close>, with no
  flag at all; \<open>strict_cookie\<close> from \<open>Set-Cookie: b=2; Secure; HttpOnly; SameSite=Strict\<close>;
  \<open>eternal_cookie\<close> from \<open>Set-Cookie: c=3; Max-Age=100000000000000\<close>, whose expiry
  time no \<open>datetime\<close> can hold.
\<close>

definition plain_cookie :: "string \<Rightarrow> cookie" where
  "plain_cookie n =
     \<lparr>cookie_name = PStr (ascii n), cookie_value = PStr (ascii ''1''),
      cookie_domain = PStr (ascii ''example.org''), cookie_path = PStr (ascii ''/''),
      cookie_secure = PBool False, cookie_expires = PNone, cookie_rest = []\<rparr>"

definition strict_cookie :: cookie where
  "strict_cookie =
     \<lparr>cookie_name = PStr (ascii ''b''), cookie_value = PStr (ascii ''2''),
      cookie_domain = PStr (ascii ''example.org''), cookie_path = PStr (ascii ''/''),
      cookie_secure = PBool True, cookie_expires = PNone,
      cookie_rest = [(ascii ''HttpOnly'', PNone), (ascii ''SameSite'', PStr (ascii ''Strict''))]\<rparr>"

definition eternal_cookie :: cookie where
  "eternal_cookie =
     \<lparr>cookie_name = PStr (ascii ''c''), cookie_value = PStr (ascii ''3''),
      cookie_domain = PStr (ascii ''example.org''), cookie_path = PStr (ascii ''/''),
      cookie_secure = PBool False, cookie_expires = PInt 100001800000000,
      cookie_rest = []\<rparr>"

text \<open>The dicts that lines 58 to 69 build for \<open>plain_cookie n\<close> and \<open>strict_cookie\<close>.\<close>

definition plain_info :: "string \<Rightarrow> pydict" where
  "plain_info n =
     [(ascii ''name'', PStr (ascii n)), (ascii ''value'', PStr (ascii ''1'')),
      (ascii ''domain'', PStr (ascii ''example.org'')), (ascii ''path'', PStr (ascii ''/'')),
      (ascii ''secure'', PBool False), (ascii ''httponly'', PBool False),
      (ascii ''samesite_value'', PNone), (ascii ''expires'', PNone)]"

definition strict_info :: pydict where
  "strict_info =
     [(ascii ''name'', PStr (ascii ''b'')), (ascii ''value'', PStr (ascii ''2'')),
      (ascii ''domain'', PStr (ascii ''example.org'')), (ascii ''path'', PStr (ascii ''/'')),
      (ascii ''secure'', PBool True), (ascii ''httponly'', PBool True),
      (ascii ''samesite_value'', PStr (ascii ''Strict'')), (ascii ''expires'', PNone)]"

text \<open>
  An environment for the examples: the server answers 200 with the given cookies, or the
  request raises the given exception; \<open>datetime.fromtimestamp\<close> raises CPython's \<open>ValueError\<close>
  at the expiry time of \<open>eternal_cookie\<close> and gives one fixed time otherwise; the clock shows
  one second more at each call; \<open>doc.txt\<close> can be opened unless an error text is given, and
  what is written to it is always stored.
\<close>

definition example_env :: "exn + cookie list \<Rightarrow> pystr option \<Rightarrow> env" where
  "example_env outcome open_error =
     \<lparr>requests_get =
        (\<lambda>url. case outcome of
                 Inl e \<Rightarrow> Inl e
               | Inr cookies \<Rightarrow>
                   Inr \<lparr>response_status_code = PInt 200, response_cookies = cookies\<rparr>),
      raise_for_status = (\<lambda>r. None),
      fromtimestamp_isoformat =
        (\<lambda>t. if t = PInt 100001800000000 then Inl (ascii ''year 3170900 is out of range'')
              else Inr (ascii ''2027-01-15T08:00:00'')),
      now_isoformat = (\<lambda>n. ascii ''2026-11-04T12:00:0'' @ digits n),
      open_doc_txt_error = open_error,
      store_error = (\<lambda>text. None)\<rparr>"

definition connection_refused :: exn where
  "connection_refused = RequestException (ascii ''Connection refused'')"

definition permission_denied :: pystr where
  "permission_denied = ascii ''[Errno 13] Permission denied: '' @ [39] @ ascii ''doc.txt'' @ [39]"

definition example_url :: pystr where
  "example_url = ascii ''https://example.org''"

text \<open>A URL that is one lone surrogate, U+DCFF; it is a \<open>str\<close> that UTF-8 cannot encode.\<close>

definition surrogate_url :: pystr where
  "surrogate_url = [56575]"

text \<open>The same environment with a disk that is full: the file is emptied and nothing stored.\<close>

definition no_space :: pystr where
  "no_space = ascii ''[Errno 28] No space left on device''"

definition full_disk_env :: "exn + cookie list \<Rightarrow> env" where
  "full_disk_env outcome =
     (example_env outcome None)\<lparr>store_error := (\<lambda>stored. Some (no_space, []))\<rparr>"

text \<open>The world before a scan: no \<open>doc.txt\<close> yet, or the report of an earlier scan.\<close>

definition fresh_world :: world where
  "fresh_world = \<lparr>doc_txt = None, console = []\<rparr>"

definition stale_world :: world where
  "stale_world = \<lparr>doc_txt = Some (ascii ''report of an earlier scan''), console = []\<rparr>"

section \<open>Facts about the values\<close>

lemma ascii_eq_iff: "ascii s = ascii t \<longleftrightarrow> s = t"
  unfolding ascii_def by (simp add: inj_map_eq_map inj_of_char)

lemma ascii_Nil_iff: "ascii s = [] \<longleftrightarrow> s = []"
  by (simp add: ascii_def)

lemma py_get_map_of:
  "py_get d k = (case map_of d k of None \<Rightarrow> PNone | Some v \<Rightarrow> v)"
  by (simp add: py_get_def py_get_default_def)

lemma map_of_py_setitem:
  "map_of (py_setitem d k v) k' = (if k' = k then Some v else map_of d k')"
  by (induction d) auto

lemma py_setitem_new: "k \<notin> fst ` set d \<Longrightarrow> py_setitem d k v = d @ [(k, v)]"
  by (induction d) auto

lemma fold_insert_union: "fold insert xs S = S \<union> set xs"
  by (induction xs arbitrary: S) auto

lemma digits_small: "n < 10 \<Longrightarrow> digits n = [48 + n]"
  by (simp add: digits.simps)

text \<open>
  Sorting any duplicate-free listing of a set gives \<open>py_sorted_set\<close> of it, so the order in
  which \<open>list(s)\<close> enumerates the Python set does not show in line 80's result.
\<close>

lemma py_sorted_set_any_order:
  "distinct xs \<Longrightarrow> set xs = S \<Longrightarrow> sort xs = py_sorted_set S"
  unfolding py_sorted_set_def
  by (metis distinct_remdups_id sorted_list_of_set_sort_remdups)

section \<open>Facts about the evaluator\<close>

text \<open>
  The three strings differ from one another, and in code-point order the SameSite string
  comes first, then HttpOnly, then Secure (the Cyrillic letter after the first word decides
  between SameSite and the other two, \<open>H\<close> before \<open>S\<close> between those two).
\<close>

lemma recs_differ:
  "rec_secure \<noteq> rec_httponly" "rec_secure \<noteq> rec_samesite" "rec_httponly \<noteq> rec_samesite"
  "rec_httponly \<noteq> rec_secure" "rec_samesite \<noteq> rec_secure" "rec_samesite \<noteq> rec_httponly"
  by (simp_all add: rec_secure_def rec_httponly_def rec_samesite_def ascii_def)

lemma recs_order:
  "rec_samesite \<le> rec_httponly" "rec_httponly \<le> rec_secure" "rec_samesite \<le> rec_secure"
  "\<not> rec_httponly \<le> rec_samesite" "\<not> rec_secure \<le> rec_httponly" "\<not> rec_secure \<le> rec_samesite"
  by (simp_all add: rec_secure_def rec_httponly_def rec_samesite_def ascii_def)

text \<open>
  The evaluator's result, check by check.
\<close>

lemma recommendations_by_check:
  "get_cookie_security_recommendations c =
     (if truthy (py_get c (ascii ''secure'')) then [] else [rec_secure]) @
     (if truthy (py_get c (ascii ''httponly'')) then [] else [rec_httponly]) @
     (if truthy (py_get c (ascii ''samesite_value'')) then [] else [rec_samesite])"
  by (simp add: get_cookie_security_recommendations_def Let_def)

lemma recommendations_subseq:
  "subseq (get_cookie_security_recommendations c) [rec_secure, rec_httponly, rec_samesite]"
  by (simp add: recommendations_by_check)

lemma recommendations_distinct: "distinct (get_cookie_security_recommendations c)"
  by (simp add: recommendations_by_check recs_differ)

lemma recommendations_length: "length (get_cookie_security_recommendations c) \<le> 3"
  by (simp add: recommendations_by_check)

lemma recommendations_subset:
  "set (get_cookie_security_recommendations c) \<subseteq> {rec_secure, rec_httponly, rec_samesite}"
  by (simp add: recommendations_by_check)

section \<open>Facts about the loop\<close>

text \<open>
  When no cookie's \<open>expires\<close> raises, the loop appends one entry per cookie, in order, and adds
  every recommendation string to the set; and it returns only then.
\<close>

lemma scan_loop_Inr:
  "list_all2 (\<lambda>c i. cookie_info env c = Inr i) cookies infos \<Longrightarrow>
   scan_loop env cookies (ds, S) =
     Inr (ds @ map with_recommendations infos,
          S \<union> \<Union> (set ` get_cookie_security_recommendations ` set infos))"
proof (induction cookies infos arbitrary: ds S rule: list_all2_induct)
  case Nil
  then show ?case by simp
next
  case (Cons c i cookies infos)
  show ?case
    using Cons.hyps(1)
    by (simp add: Cons.IH Let_def with_recommendations_def fold_insert_union Un_assoc)
qed

lemma scan_loop_Inr_D:
  "scan_loop env cookies st = Inr st' \<Longrightarrow>
   \<exists>infos. list_all2 (\<lambda>c i. cookie_info env c = Inr i) cookies infos"
proof (induction cookies arbitrary: st)
  case Nil
  then show ?case by simp
next
  case (Cons c cookies)
  obtain ds S where st: "st = (ds, S)" by (cases st)
  from Cons.prems obtain i where i: "cookie_info env c = Inr i"
    by (auto simp: st split: sum.splits)
  with Cons.prems obtain st2 where "scan_loop env cookies st2 = Inr st'"
    by (auto simp: st Let_def)
  then obtain infos where "list_all2 (\<lambda>c i. cookie_info env c = Inr i) cookies infos"
    using Cons.IH by blast
  with i have "list_all2 (\<lambda>c i. cookie_info env c = Inr i) (c # cookies) (i # infos)" by simp
  then show ?case by blast
qed

lemma infos_determined:
  "list_all2 (\<lambda>c i. g c = Inr i) cs infos \<Longrightarrow> infos = map (projr \<circ> g) cs"
  by (induction cs infos rule: list_all2_induct) auto

lemma infos_of_all_Inr:
  "(\<forall>c\<in>set cs. \<exists>i. g c = Inr i) \<Longrightarrow> list_all2 (\<lambda>c i. g c = Inr i) cs (map (projr \<circ> g) cs)"
  by (induction cs) auto

lemma all_Inr_of_infos:
  "list_all2 (\<lambda>c i. g c = Inr i) cs infos \<Longrightarrow> \<forall>c\<in>set cs. \<exists>i. g c = Inr i"
  by (induction cs infos rule: list_all2_induct) auto

lemma site_recommendations_spec_map:
  "site_recommendations_spec (map f xs) = sorted_list_of_set (\<Union> (set ` f ` set xs))"
  by (simp add: site_recommendations_spec_def image_image)

lemma site_recommendations_spec_props:
  "sorted (site_recommendations_spec rss)"
  "distinct (site_recommendations_spec rss)"
  "set (site_recommendations_spec rss) = \<Union> (set ` set rss)"
  by (simp_all add: site_recommendations_spec_def)

lemma site_recommendations_spec_sort:
  "site_recommendations_spec rss = sort (remdups (concat rss))"
  unfolding site_recommendations_spec_def
  by (metis set_concat sorted_list_of_set_sort_remdups)

lemma scan_aggregate_Inr:
  "list_all2 (\<lambda>c i. cookie_info env c = Inr i) cookies infos \<Longrightarrow>
   scan_aggregate env cookies =
     Inr (map with_recommendations infos,
          site_recommendations_spec (map get_cookie_security_recommendations infos))"
  by (simp add: scan_aggregate_def scan_loop_Inr py_sorted_set_def site_recommendations_spec_map)

lemma scan_aggregate_Inr_D:
  "scan_aggregate env cookies = Inr r \<Longrightarrow>
   \<exists>infos. list_all2 (\<lambda>c i. cookie_info env c = Inr i) cookies infos"
  unfolding scan_aggregate_def
  by (auto split: sum.splits dest: scan_loop_Inr_D)

lemma detail_of_cookie_Inr:
  "cookie_info env c = Inr i \<Longrightarrow> detail_of_cookie env c = Inr (with_recommendations i)"
  by (simp add: detail_of_cookie_def)

lemma details_follow_cookies:
  "list_all2 (\<lambda>c i. cookie_info env c = Inr i) cs infos \<Longrightarrow>
   list_all2 (\<lambda>c d. detail_of_cookie env c = Inr d) cs (map with_recommendations infos)"
  by (induction cs infos rule: list_all2_induct) (auto simp: detail_of_cookie_Inr)

text \<open>
  Only \<open>datetime.fromtimestamp\<close> can stop the loop: where it returns for every cookie that has
  an expiry time, lines 55 to 80 return.
\<close>

lemma cookie_info_returns:
  assumes "\<not> truthy (cookie_expires c) \<or> (\<exists>s. fromtimestamp_isoformat env (cookie_expires c) = Inr s)"
  shows "\<exists>i. cookie_info env c = Inr i"
  using assms by (auto simp: cookie_info_def Let_def)

lemma scan_aggregate_returns:
  assumes "\<forall>c\<in>set cookies.
             \<not> truthy (cookie_expires c) \<or> (\<exists>s. fromtimestamp_isoformat env (cookie_expires c) = Inr s)"
  shows "\<exists>details site. scan_aggregate env cookies = Inr (details, site)"
proof -
  have "\<forall>c\<in>set cookies. \<exists>i. cookie_info env c = Inr i"
    using assms cookie_info_returns by blast
  then have "list_all2 (\<lambda>c i. cookie_info env c = Inr i) cookies (map (projr \<circ> cookie_info env) cookies)"
    by (rule infos_of_all_Inr)
  from scan_aggregate_Inr [OF this] show ?thesis by blast
qed

text \<open>
  Every entry of \<open>cookie_details\<close> holds the nine keys in this order, so the subscripts of
  the report writer find their keys. Its \<open>recommendations\<close> are the evaluator's list, which
  the added key does not change.
\<close>

lemma cookie_info_keys:
  "cookie_info env c = Inr i \<Longrightarrow>
   map fst i = map ascii [''name'', ''value'', ''domain'', ''path'', ''secure'', ''httponly'',
                          ''samesite_value'', ''expires'']"
  by (auto simp: cookie_info_def Let_def split: if_splits sum.splits)

lemma detail_of_cookie_keys:
  assumes "detail_of_cookie env c = Inr d"
  shows "map fst d = map ascii [''name'', ''value'', ''domain'', ''path'', ''secure'', ''httponly'',
                                ''samesite_value'', ''expires'', ''recommendations'']"
proof -
  from assms obtain i where i: "cookie_info env c = Inr i" and d: "d = with_recommendations i"
    by (auto simp: detail_of_cookie_def split: sum.splits)
  have keys: "map fst i = map ascii [''name'', ''value'', ''domain'', ''path'', ''secure'',
                                     ''httponly'', ''samesite_value'', ''expires'']"
    using i by (rule cookie_info_keys)
  have "ascii ''recommendations'' \<notin> set (map fst i)"
    unfolding keys by (simp add: ascii_eq_iff)
  then have "with_recommendations i =
      i @ [(ascii ''recommendations'', PList (map PStr (get_cookie_security_recommendations i)))]"
    unfolding with_recommendations_def by (intro py_setitem_new) simp
  then show ?thesis
    by (simp add: d keys)
qed

lemma recommendations_of_detail:
  "py_item (with_recommendations i) (ascii ''recommendations'') =
     PList (map PStr (get_cookie_security_recommendations i))"
  "get_cookie_security_recommendations (with_recommendations i) =
     get_cookie_security_recommendations i"
  by (simp_all add: with_recommendations_def py_item_def recommendations_by_check py_get_map_of
      map_of_py_setitem ascii_eq_iff)

section \<open>Facts about writing \<open>doc.txt\<close>\<close>

lemma encodable_append: "encodable (s @ t) \<longleftrightarrow> encodable s \<and> encodable t"
  by (simp add: encodable_def)


lemma encodable_error_texts:
  "encodable txt_scan_error_for_url" "encodable txt_time" "encodable txt_error"
  "encodable txt_request_error"
  by (simp_all add: encodable_def surrogate_def ascii_def txt_scan_error_for_url_def txt_time_def
      txt_error_def txt_request_error_def)

lemma write_all_encodable:
  "list_all encodable writes \<Longrightarrow> write_all writes written = (written @ concat writes, None)"
  by (induction writes arbitrary: written) auto


lemma write_all_stopped:
  "\<not> list_all encodable writes \<Longrightarrow> snd (write_all writes written) \<noteq> None"
  by (induction writes arbitrary: written) auto

lemma write_doc_txt_ok_iff:
  "fst (write_doc_txt env writes w) = None \<longleftrightarrow>
     open_doc_txt_error env = None \<and> list_all encodable writes \<and>
     store_error env (concat writes) = None"
proof (cases "list_all encodable writes")
  case True
  then show ?thesis
    by (auto simp: write_doc_txt_def write_all_encodable split: option.splits)
next
  case False
  then obtain written e where "write_all writes [] = (written, Some e)"
    using write_all_stopped [of writes "[]"] by (cases "write_all writes []") auto
  with False show ?thesis
    by (auto simp: write_doc_txt_def split: option.splits)
qed

text \<open>Whatever the block raises is no \<open>RequestException\<close>, and it prints nothing.\<close>

lemma write_doc_txt_raises:
  "write_doc_txt env writes w = (Some e, w') \<Longrightarrow> \<exists>msg. e = OtherException msg"
  by (auto simp: write_doc_txt_def split: option.splits prod.splits)


lemma write_doc_txt_unopened:
  "open_doc_txt_error env = Some msg \<Longrightarrow>
   write_doc_txt env writes w = (Some (OtherException msg), w)"
  by (simp add: write_doc_txt_def)

section \<open>The paths through \<open>scan_cookies\<close>\<close>

text \<open>
  Success: the request, the loop and the \<open>with\<close> block raise nothing; the dict \<open>results\<close> is
  returned, and the world is the one the block leaves.
\<close>

lemma scan_cookies_success:
  assumes "requests_get env url = Inr response"
    and "raise_for_status env response = None"
    and "scan_aggregate env (response_cookies response) = Inr (details, site)"
    and "write_doc_txt env
           (success_writes url (now_isoformat env 0) (response_status_code response)
              (int (length (response_cookies response))) details site) w = (None, w')"
  shows "scan_cookies env url w =
     ([(ascii ''url'', PStr url),
       (ascii ''scan_time'', PStr (now_isoformat env 0)),
       (ascii ''cookies_found'', PInt (int (length (response_cookies response)))),
       (ascii ''cookie_details'', PList (map PDict details)),
       (ascii ''security_recommendations'', PList (map PStr site))],
      w')"
  using assms by (simp add: scan_cookies_def scan_try_def Let_def)

text \<open>
  The request succeeded and the report was computed, but the \<open>with\<close> block of lines 85 to
  117 raises: its exception is raised inside the outer \<open>try\<close> and reaches the handler of
  line 136, which returns its dict and prints nothing.
\<close>

lemma scan_cookies_write_failure:
  assumes "requests_get env url = Inr response"
    and "raise_for_status env response = None"
    and "scan_aggregate env (response_cookies response) = Inr (details, site)"
    and "write_doc_txt env
           (success_writes url (now_isoformat env 0) (response_status_code response)
              (int (length (response_cookies response))) details site) w =
         (Some (OtherException msg), w')"
  shows "scan_cookies env url w =
     ([(ascii ''error'', PStr (txt_unexpected @ msg)),
       (ascii ''url'', PStr url),
       (ascii ''scan_time'', PStr (now_isoformat env 1))],
      w')"
  using assms by (simp add: scan_cookies_def scan_try_def Let_def)

text \<open>In particular when \<open>doc.txt\<close> cannot be opened; then nothing has changed.\<close>

lemma scan_cookies_unwritable:
  assumes "requests_get env url = Inr response"
    and "raise_for_status env response = None"
    and "scan_aggregate env (response_cookies response) = Inr (details, site)"
    and "open_doc_txt_error env = Some msg"
  shows "scan_cookies env url w =
     ([(ascii ''error'', PStr (txt_unexpected @ msg)),
       (ascii ''url'', PStr url),
       (ascii ''scan_time'', PStr (now_isoformat env 1))],
      w)"
  using assms(1-3) write_doc_txt_unopened [OF assms(4)]
  by (rule scan_cookies_write_failure)

text \<open>
  An exception other than \<open>RequestException\<close> in the loop: the handler of line 136 returns
  its dict and touches nothing.
\<close>

lemma scan_cookies_unexpected:
  assumes "requests_get env url = Inr response"
    and "raise_for_status env response = None"
    and "scan_aggregate env (response_cookies response) = Inl (OtherException msg)"
  shows "scan_cookies env url w =
     ([(ascii ''error'', PStr (txt_unexpected @ msg)),
       (ascii ''url'', PStr url),
       (ascii ''scan_time'', PStr (now_isoformat env 1))],
      w)"
  using assms by (simp add: scan_cookies_def scan_try_def Let_def)

text \<open>
  A request failure: the handler of line 120 builds \<open>error_info\<close>, runs its \<open>with\<close> block and
  returns \<open>error_info\<close> whatever the block does; what the block raises is printed.
\<close>

lemma scan_try_request_failure:
  assumes "requests_get env url = Inl (RequestException msg) \<or>
           (requests_get env url = Inr response \<and> raise_for_status env response = Some msg)"
  shows "scan_try env url scan_time w = (Inl (RequestException msg), w)"
  using assms by (auto simp: scan_try_def)

lemma scan_cookies_request_failure:
  assumes "requests_get env url = Inl (RequestException msg) \<or>
           (requests_get env url = Inr response \<and> raise_for_status env response = Some msg)"
  shows "scan_cookies env url w =
     ([(ascii ''error'', PStr (txt_request_error @ msg)),
       (ascii ''url'', PStr url),
       (ascii ''scan_time'', PStr (now_isoformat env 1))],
      case write_doc_txt env
             (error_writes url (now_isoformat env 1) (txt_request_error @ msg)) w of
        (None, w') \<Rightarrow> w'
      | (Some write_e, w') \<Rightarrow> w'\<lparr>console := console w' @ [txt_critical @ exn_text write_e]\<rparr>)"
  by (simp add: scan_cookies_def scan_try_request_failure [OF assms] Let_def py_item_def
      ascii_eq_iff split: prod.splits option.splits)

section \<open>The example inputs, evaluated\<close>

lemma example_env_simps:
  "requests_get (example_env (Inr cookies) oe) url =
     Inr \<lparr>response_status_code = PInt 200, response_cookies = cookies\<rparr>"
  "requests_get (example_env (Inl e) oe) url = Inl e"
  "raise_for_status (example_env outcome oe) r = None"
  "open_doc_txt_error (example_env outcome oe) = oe"
  "now_isoformat (example_env outcome oe) n = ascii ''2026-11-04T12:00:0'' @ digits n"
  "fromtimestamp_isoformat (example_env outcome oe) t =
     (if t = PInt 100001800000000 then Inl (ascii ''year 3170900 is out of range'')
      else Inr (ascii ''2027-01-15T08:00:00''))"
  "store_error (example_env outcome oe) text = None"
  by (simp_all add: example_env_def)

lemma example_clock:
  "now_isoformat (example_env outcome oe) 0 = ascii ''2026-11-04T12:00:00''"
  "now_isoformat (example_env outcome oe) 1 = ascii ''2026-11-04T12:00:01''"
  "now_isoformat (example_env outcome oe) (Suc 0) = ascii ''2026-11-04T12:00:01''"
  by (simp_all add: example_env_simps digits_small ascii_def)

lemma cookie_info_plain: "cookie_info env (plain_cookie n) = Inr (plain_info n)"
  by (simp add: cookie_info_def plain_cookie_def plain_info_def py_get_def py_get_default_def
      py_in_def Let_def)

lemma cookie_info_strict: "cookie_info env strict_cookie = Inr strict_info"
  by (simp add: cookie_info_def strict_cookie_def strict_info_def py_get_def py_get_default_def
      py_in_def Let_def ascii_eq_iff)

lemma cookie_info_eternal:
  "cookie_info (example_env outcome oe) eternal_cookie =
     Inl (OtherException (ascii ''year 3170900 is out of range''))"
  by (simp add: cookie_info_def eternal_cookie_def example_env_simps Let_def)

lemma scan_aggregate_eternal:
  "scan_aggregate (example_env outcome oe) [plain_cookie ''a'', eternal_cookie] =
     Inl (OtherException (ascii ''year 3170900 is out of range''))"
  by (simp add: scan_aggregate_def cookie_info_plain cookie_info_eternal Let_def)

lemma recommendations_plain_info:
  "get_cookie_security_recommendations (plain_info n) = [rec_secure, rec_httponly, rec_samesite]"
  by (simp add: recommendations_by_check py_get_map_of plain_info_def ascii_eq_iff)

lemma recommendations_strict_info: "get_cookie_security_recommendations strict_info = []"
  by (simp add: recommendations_by_check py_get_map_of strict_info_def ascii_eq_iff ascii_Nil_iff)

lemma sorted_three_recs:
  "sort (remdups ([rec_secure, rec_httponly, rec_samesite] @ rs)) = [rec_samesite, rec_httponly, rec_secure]"
  if "set rs \<subseteq> {rec_secure, rec_httponly, rec_samesite}"
proof -
  have "set (remdups ([rec_secure, rec_httponly, rec_samesite] @ rs)) =
        set [rec_samesite, rec_httponly, rec_secure]"
    using that by auto
  moreover have "sorted [rec_samesite, rec_httponly, rec_secure]"
    "distinct [rec_samesite, rec_httponly, rec_secure]"
    by (simp_all add: recs_order recs_differ)
  ultimately show ?thesis
    by (metis distinct_remdups sorted_distinct_set_unique sorted_sort distinct_sort set_sort)
qed

lemma scan_aggregate_plain_strict:
  "scan_aggregate env [plain_cookie ''a'', strict_cookie] =
     Inr (map with_recommendations [plain_info ''a'', strict_info],
          [rec_samesite, rec_httponly, rec_secure])"
proof -
  have "list_all2 (\<lambda>c i. cookie_info env c = Inr i)
     [plain_cookie ''a'', strict_cookie] [plain_info ''a'', strict_info]"
    by (simp add: cookie_info_plain cookie_info_strict)
  from scan_aggregate_Inr [OF this] show ?thesis
    by (simp add: site_recommendations_spec_sort recommendations_plain_info
        recommendations_strict_info sorted_three_recs [of "[]", simplified])
qed

lemma scan_aggregate_strict_plain:
  "scan_aggregate env [strict_cookie, plain_cookie ''a''] =
     Inr (map with_recommendations [strict_info, plain_info ''a''],
          [rec_samesite, rec_httponly, rec_secure])"
proof -
  have "list_all2 (\<lambda>c i. cookie_info env c = Inr i)
     [strict_cookie, plain_cookie ''a''] [strict_info, plain_info ''a'']"
    by (simp add: cookie_info_plain cookie_info_strict)
  from scan_aggregate_Inr [OF this] show ?thesis
    by (simp add: site_recommendations_spec_sort recommendations_plain_info
        recommendations_strict_info sorted_three_recs [of "[]", simplified])
qed

lemma samesite_attributes_lookup:
  "map_of (samesite_attributes v) (ascii ''samesite_value'') = v"
  by (simp add: samesite_attributes_def ascii_eq_iff split: option.splits)

section \<open>The claims\<close>

text \<open>
  C1. The claim: a failure to write the output file is printed and swallowed, and never
  replaces a computed success report by an error result. Here the server answers 200 with
  two cookies, the report is computed (first conjunct), and \<open>doc.txt\<close> cannot be opened. The
  scan returns the dict of the handler of line 136, with the \<open>error\<close> text "Unexpected
  error: [Errno 13] Permission denied: 'doc.txt'" in place of the report, and prints
  nothing. Only the write of lines 128 to 131, in the handler of a request failure, sits in
  a \<open>try\<close> of its own that prints and goes on; the write of lines 85 to 117 does not.
\<close>

theorem write_failure_replaces_success_report:
  "scan_aggregate (example_env (Inr [plain_cookie ''a'', strict_cookie]) (Some permission_denied))
     [plain_cookie ''a'', strict_cookie] =
     Inr (map with_recommendations [plain_info ''a'', strict_info],
          [rec_samesite, rec_httponly, rec_secure]) \<and>
   scan_cookies (example_env (Inr [plain_cookie ''a'', strict_cookie]) (Some permission_denied))
     example_url fresh_world =
     ([(ascii ''error'', PStr (txt_unexpected @ permission_denied)),
       (ascii ''url'', PStr example_url),
       (ascii ''scan_time'', PStr (ascii ''2026-11-04T12:00:01''))],
      fresh_world) \<and>
   console fresh_world = []"
proof -
  have "scan_cookies (example_env (Inr [plain_cookie ''a'', strict_cookie]) (Some permission_denied))
     example_url fresh_world =
     ([(ascii ''error'', PStr (txt_unexpected @ permission_denied)),
       (ascii ''url'', PStr example_url),
       (ascii ''scan_time'',
        PStr (now_isoformat (example_env (Inr [plain_cookie ''a'', strict_cookie])
                (Some permission_denied)) 1))],
      fresh_world)"
    by (rule scan_cookies_unwritable
          [where response = "\<lparr>response_status_code = PInt 200,
                              response_cookies = [plain_cookie ''a'', strict_cookie]\<rparr>"
             and details = "map with_recommendations [plain_info ''a'', strict_info]"
             and site = "[rec_samesite, rec_httponly, rec_secure]"])
       (simp_all add: example_env_simps scan_aggregate_plain_strict)
  then show ?thesis
    by (simp add: scan_aggregate_plain_strict example_clock fresh_world_def)
qed

text \<open>
  C2. The claim: every invocation writes \<open>doc.txt\<close>, also one that ends in an unexpected
  failure. Here the server sets a cookie whose expiry time \<open>datetime.fromtimestamp\<close> rejects;
  the file can be opened. The scan returns the dict of the handler of line 136 and leaves
  the world as it was: \<open>doc.txt\<close> still holds the report of the earlier scan. The handler of
  a request failure writes the error layout (lines 127 to 131); this one writes nothing.
\<close>

theorem unexpected_failure_leaves_doc_txt:
  "scan_cookies (example_env (Inr [plain_cookie ''a'', eternal_cookie]) None) example_url stale_world =
     ([(ascii ''error'', PStr (txt_unexpected @ ascii ''year 3170900 is out of range'')),
       (ascii ''url'', PStr example_url),
       (ascii ''scan_time'', PStr (ascii ''2026-11-04T12:00:01''))],
      stale_world) \<and>
   open_doc_txt_error (example_env (Inr [plain_cookie ''a'', eternal_cookie]) None) = None \<and>
   doc_txt stale_world = Some (ascii ''report of an earlier scan'')"
proof -
  have "scan_cookies (example_env (Inr [plain_cookie ''a'', eternal_cookie]) None) example_url stale_world =
     ([(ascii ''error'', PStr (txt_unexpected @ ascii ''year 3170900 is out of range'')),
       (ascii ''url'', PStr example_url),
       (ascii ''scan_time'',
        PStr (now_isoformat (example_env (Inr [plain_cookie ''a'', eternal_cookie]) None) 1))],
      stale_world)"
    by (rule scan_cookies_unexpected
          [where response = "\<lparr>response_status_code = PInt 200,
                              response_cookies = [plain_cookie ''a'', eternal_cookie]\<rparr>"])
       (simp_all add: example_env_simps scan_aggregate_eternal)
  then show ?thesis
    by (simp add: example_clock example_env_simps(4) stale_world_def)
qed

text \<open>
  C3, as the specification states it: for the cookie of scenario A the evaluator returns
  the three English strings. It does not: the strings of the code are Russian.
\<close>

theorem scenario_a_not_the_english_strings:
  "get_cookie_security_recommendations scenario_a \<noteq> [spec_secure, spec_httponly, spec_samesite]"
  by (simp add: recommendations_by_check py_get_map_of scenario_a_def ascii_eq_iff
      rec_secure_def spec_secure_def ascii_def)

text \<open>
  C3, amended: for the cookie of scenario A the evaluator returns exactly the three
  strings of lines 12, 14 and 16, in the order Secure, HttpOnly, SameSite.
\<close>

theorem scenario_a_recommendations:
  "get_cookie_security_recommendations scenario_a = [rec_secure, rec_httponly, rec_samesite]"
  by (simp add: recommendations_by_check py_get_map_of scenario_a_def ascii_eq_iff)

text \<open>
  C4. Where the loop runs through (no \<open>expires\<close> raises, \<open>infos\<close> being the dicts of lines 58
  to 69), lines 55 to 80 return one entry per cookie and, as the site-wide list, the
  list of the specification: the union of the per-cookie recommendation strings as a set,
  sorted ascending by code points. That list is the sorted duplicate-free concatenation,
  it is sorted, holds no string twice, and holds exactly the strings that some cookie got.
\<close>

theorem site_recommendations_sorted_union:
  assumes "list_all2 (\<lambda>c i. cookie_info env c = Inr i) cookies infos"
  shows "scan_aggregate env cookies =
           Inr (map with_recommendations infos,
                site_recommendations_spec (map get_cookie_security_recommendations infos)) \<and>
         site_recommendations_spec (map get_cookie_security_recommendations infos) =
           sort (remdups (concat (map get_cookie_security_recommendations infos))) \<and>
         sorted (site_recommendations_spec (map get_cookie_security_recommendations infos)) \<and>
         distinct (site_recommendations_spec (map get_cookie_security_recommendations infos)) \<and>
         set (site_recommendations_spec (map get_cookie_security_recommendations infos)) =
           \<Union> (set ` get_cookie_security_recommendations ` set infos)"
  using assms
  by (simp add: scan_aggregate_Inr site_recommendations_spec_props image_image
      flip: site_recommendations_spec_sort)

text \<open>
  Two cookies that miss the same three flags: each string appears once.
\<close>

theorem site_recommendations_sorted_union_witness:
  "list_all2 (\<lambda>c i. cookie_info (example_env (Inr []) None) c = Inr i)
     [plain_cookie ''a'', plain_cookie ''d''] [plain_info ''a'', plain_info ''d''] \<and>
   scan_aggregate (example_env (Inr []) None) [plain_cookie ''a'', plain_cookie ''d''] =
     Inr (map with_recommendations [plain_info ''a'', plain_info ''d''],
          [rec_samesite, rec_httponly, rec_secure])"
proof -
  have h: "list_all2 (\<lambda>c i. cookie_info (example_env (Inr []) None) c = Inr i)
     [plain_cookie ''a'', plain_cookie ''d''] [plain_info ''a'', plain_info ''d'']"
    by (simp add: cookie_info_plain)
  show ?thesis
    using h site_recommendations_sorted_union [OF h]
    by (simp add: recommendations_plain_info sorted_three_recs [of "[rec_secure, rec_httponly, rec_samesite]", simplified])
qed

text \<open>
  C5. If lines 55 to 80 return for a sequence of cookies, they return for every
  permutation of it, with the same sorted site-wide list; the entries of \<open>cookie_details\<close>
  follow the permuted order, and are the same entries up to order.
\<close>

theorem site_recommendations_permutation_invariant:
  assumes "mset cookies' = mset cookies"
    and "scan_aggregate env cookies = Inr (details, site)"
  shows "\<exists>details'. scan_aggregate env cookies' = Inr (details', site) \<and>
           list_all2 (\<lambda>c d. detail_of_cookie env c = Inr d) cookies' details' \<and>
           mset details' = mset details"
proof -
  let ?f = "projr \<circ> cookie_info env"
  let ?site = "\<lambda>cs. site_recommendations_spec (map get_cookie_security_recommendations (map ?f cs))"
  from assms(2) obtain infos where
    infos: "list_all2 (\<lambda>c i. cookie_info env c = Inr i) cookies infos"
    using scan_aggregate_Inr_D by blast
  then have infos_eq: "infos = map ?f cookies"
    by (rule infos_determined)
  have same_set: "set cookies' = set cookies"
    using assms(1) by (rule mset_eq_setD)
  from infos have "\<forall>c\<in>set cookies'. \<exists>i. cookie_info env c = Inr i"
    unfolding same_set by (rule all_Inr_of_infos)
  then have infos': "list_all2 (\<lambda>c i. cookie_info env c = Inr i) cookies' (map ?f cookies')"
    by (rule infos_of_all_Inr)
  have original: "details = map with_recommendations (map ?f cookies)" "site = ?site cookies"
    using assms(2) scan_aggregate_Inr [OF infos] by (simp_all add: infos_eq)
  have "?site cookies' = ?site cookies"
    by (simp add: site_recommendations_spec_def same_set)
  then have "scan_aggregate env cookies' = Inr (map with_recommendations (map ?f cookies'), site)"
    using scan_aggregate_Inr [OF infos'] original(2) by simp
  moreover have "list_all2 (\<lambda>c d. detail_of_cookie env c = Inr d) cookies'
                   (map with_recommendations (map ?f cookies'))"
    using infos' by (rule details_follow_cookies)
  moreover have "mset (map with_recommendations (map ?f cookies')) = mset details"
    unfolding original(1) mset_map assms(1) ..
  ultimately show ?thesis by blast
qed

theorem site_recommendations_permutation_invariant_witness:
  "mset [strict_cookie, plain_cookie ''a''] = mset [plain_cookie ''a'', strict_cookie] \<and>
   scan_aggregate (example_env (Inr []) None) [plain_cookie ''a'', strict_cookie] =
     Inr (map with_recommendations [plain_info ''a'', strict_info],
          [rec_samesite, rec_httponly, rec_secure]) \<and>
   (\<exists>details'.
      scan_aggregate (example_env (Inr []) None) [strict_cookie, plain_cookie ''a''] =
        Inr (details', [rec_samesite, rec_httponly, rec_secure]) \<and>
      list_all2 (\<lambda>c d. detail_of_cookie (example_env (Inr []) None) c = Inr d)
        [strict_cookie, plain_cookie ''a''] details' \<and>
      mset details' = mset (map with_recommendations [plain_info ''a'', strict_info]))"
proof -
  have h1: "mset [strict_cookie, plain_cookie ''a''] = mset [plain_cookie ''a'', strict_cookie]"
    by simp
  have h2: "scan_aggregate (example_env (Inr []) None) [plain_cookie ''a'', strict_cookie] =
     Inr (map with_recommendations [plain_info ''a'', strict_info],
          [rec_samesite, rec_httponly, rec_secure])"
    by (rule scan_aggregate_plain_strict)
  show ?thesis
    using h1 h2 site_recommendations_permutation_invariant [OF h1 h2] by blast
qed

text \<open>
  C6. A cookie whose \<open>secure\<close> is \<open>False\<close> gets the Secure recommendation; a cookie whose
  \<open>secure\<close> is \<open>True\<close> never does.
\<close>

theorem secure_recommendation:
  "(py_get c (ascii ''secure'') = PBool False \<longrightarrow>
      rec_secure \<in> set (get_cookie_security_recommendations c)) \<and>
   (py_get c (ascii ''secure'') = PBool True \<longrightarrow>
      rec_secure \<notin> set (get_cookie_security_recommendations c))"
  by (simp add: recommendations_by_check recs_differ)

theorem secure_recommendation_witness:
  "py_get scenario_a (ascii ''secure'') = PBool False \<and>
   rec_secure \<in> set (get_cookie_security_recommendations scenario_a) \<and>
   py_get scenario_b (ascii ''secure'') = PBool True \<and>
   rec_secure \<notin> set (get_cookie_security_recommendations scenario_b)"
proof -
  have a: "py_get scenario_a (ascii ''secure'') = PBool False"
    by (simp add: py_get_map_of scenario_a_def ascii_eq_iff)
  have b: "py_get scenario_b (ascii ''secure'') = PBool True"
    by (simp add: py_get_map_of scenario_b_def ascii_eq_iff)
  show ?thesis
    using a b secure_recommendation [of scenario_a] secure_recommendation [of scenario_b]
    by simp
qed

text \<open>
  C7. A cookie whose \<open>samesite_value\<close> is absent, \<open>None\<close> or the empty string gets the
  SameSite recommendation; one whose value is a non-empty string, \<open>'None'\<close> included, does
  not; and a dict with the empty string under that key gets the same recommendations as
  the same dict without the key.
\<close>

theorem samesite_recommendation:
  "(map_of c (ascii ''samesite_value'') = None \<or>
    map_of c (ascii ''samesite_value'') = Some PNone \<or>
    map_of c (ascii ''samesite_value'') = Some (PStr []) \<longrightarrow>
      rec_samesite \<in> set (get_cookie_security_recommendations c)) \<and>
   (map_of c (ascii ''samesite_value'') = Some (PStr s) \<and> s \<noteq> [] \<longrightarrow>
      rec_samesite \<notin> set (get_cookie_security_recommendations c)) \<and>
   (map_of c (ascii ''samesite_value'') = None \<and>
    map_of c' = (map_of c)(ascii ''samesite_value'' \<mapsto> PStr []) \<longrightarrow>
      get_cookie_security_recommendations c' = get_cookie_security_recommendations c)"
  by (auto simp add: recommendations_by_check py_get_map_of recs_differ ascii_eq_iff)

theorem samesite_recommendation_witness:
  "rec_samesite \<in> set (get_cookie_security_recommendations (samesite_attributes None)) \<and>
   rec_samesite \<in> set (get_cookie_security_recommendations (samesite_attributes (Some PNone))) \<and>
   rec_samesite \<in> set (get_cookie_security_recommendations (samesite_attributes (Some (PStr [])))) \<and>
   rec_samesite \<notin> set (get_cookie_security_recommendations
                          (samesite_attributes (Some (PStr (ascii ''None''))))) \<and>
   get_cookie_security_recommendations (samesite_attributes (Some (PStr []))) =
     get_cookie_security_recommendations (samesite_attributes None)"
proof -
  have upd: "map_of (samesite_attributes (Some (PStr []))) =
        (map_of (samesite_attributes None))(ascii ''samesite_value'' \<mapsto> PStr [])"
    by (rule ext) (simp add: samesite_attributes_def ascii_eq_iff)
  have ne: "ascii ''None'' \<noteq> []"
    by (simp add: ascii_Nil_iff)
  show ?thesis
    using upd ne
      samesite_recommendation [of "samesite_attributes None" "ascii ''None''"
        "samesite_attributes (Some (PStr []))"]
      samesite_recommendation [of "samesite_attributes (Some PNone)" "ascii ''None''"
        "samesite_attributes (Some (PStr []))"]
      samesite_recommendation [of "samesite_attributes (Some (PStr []))" "ascii ''None''"
        "samesite_attributes (Some (PStr []))"]
      samesite_recommendation [of "samesite_attributes (Some (PStr (ascii ''None'')))" "ascii ''None''"
        "samesite_attributes (Some (PStr []))"]
    by (simp add: samesite_attributes_lookup)
qed

text \<open>
  C8. The result lists the failed checks in the order Secure, HttpOnly, SameSite: it is
  the list of the three strings filtered by the failing checks, hence a subsequence of
  it, and for a cookie that fails all three it is the whole list.
\<close>

theorem recommendations_in_check_order:
  "get_cookie_security_recommendations c =
     map snd (filter (\<lambda>(key, r). \<not> truthy (py_get c key))
       [(ascii ''secure'', rec_secure),
        (ascii ''httponly'', rec_httponly),
        (ascii ''samesite_value'', rec_samesite)]) \<and>
   subseq (get_cookie_security_recommendations c) [rec_secure, rec_httponly, rec_samesite] \<and>
   (\<not> truthy (py_get c (ascii ''secure'')) \<and>
    \<not> truthy (py_get c (ascii ''httponly'')) \<and>
    \<not> truthy (py_get c (ascii ''samesite_value'')) \<longrightarrow>
      get_cookie_security_recommendations c = [rec_secure, rec_httponly, rec_samesite])"
  by (simp add: recommendations_by_check)

theorem recommendations_in_check_order_witness:
  "\<not> truthy (py_get scenario_a (ascii ''secure'')) \<and>
   \<not> truthy (py_get scenario_a (ascii ''httponly'')) \<and>
   \<not> truthy (py_get scenario_a (ascii ''samesite_value'')) \<and>
   get_cookie_security_recommendations scenario_a = [rec_secure, rec_httponly, rec_samesite]"
proof -
  have h: "\<not> truthy (py_get scenario_a (ascii ''secure''))"
    "\<not> truthy (py_get scenario_a (ascii ''httponly''))"
    "\<not> truthy (py_get scenario_a (ascii ''samesite_value''))"
    by (simp_all add: py_get_map_of scenario_a_def ascii_eq_iff)
  show ?thesis
    using h recommendations_in_check_order [of scenario_a] by simp
qed



text \<open>
  The same refused connection with a URL that is a lone surrogate: the first \<open>f.write\<close> of
  line 129 raises, \<open>doc.txt\<close> is left empty, line 134 prints CPython's text, and the dict is
  returned as ever.
\<close>

lemma unicode_encode_error_single:
  assumes "encodable before" and "surrogate c" and "\<not> surrogate c'"
  shows "unicode_encode_error (before @ c # c' # rest) =
           [39] @ ascii ''utf-8'' @ [39] @ ascii '' codec can'' @ [39] @
           ascii ''t encode character '' @ [39, 92] @ ascii ''u'' @ hex4 c @ [39] @
           ascii '' in position '' @ digits (length before) @ ascii '': surrogates not allowed''"
proof -
  have "takeWhile (\<lambda>c. \<not> surrogate c) (before @ c # c' # rest) = before"
    using assms(1,2) by (simp add: encodable_def list_all_iff takeWhile_append2)
  moreover have "takeWhile surrogate (c # c' # rest) = [c]"
    using assms(2,3) by simp
  ultimately show ?thesis
    by (simp add: unicode_encode_error_def Let_def)
qed

lemma digits_29: "digits 29 = [50, 57]"
  by (simp add: digits.simps [of 29] digits.simps [of 2])

lemma unicode_encode_error_surrogate_url:
  "unicode_encode_error (txt_scan_error_for_url @ surrogate_url @ [10]) =
          [39] @ ascii ''utf-8'' @ [39] @ ascii '' codec can'' @ [39]
          @ ascii ''t encode character '' @ [39, 92] @ ascii ''udcff'' @ [39]
          @ ascii '' in position 29: surrogates not allowed''"
proof -
  have "unicode_encode_error (txt_scan_error_for_url @ 56575 # 10 # []) =
          [39] @ ascii ''utf-8'' @ [39] @ ascii '' codec can'' @ [39] @
          ascii ''t encode character '' @ [39, 92] @ ascii ''u'' @ hex4 56575 @ [39] @
          ascii '' in position '' @ digits (length txt_scan_error_for_url) @
          ascii '': surrogates not allowed''"
    by (rule unicode_encode_error_single)
       (simp_all add: encodable_error_texts surrogate_def)
  moreover have "length txt_scan_error_for_url = 29"
    by (simp add: txt_scan_error_for_url_def ascii_def)
  moreover have "hex4 56575 = ascii ''dcff''"
    by (simp add: hex4_def hex_digit_def ascii_def)
  ultimately show ?thesis
    by (simp add: surrogate_url_def digits_29 ascii_def)
qed

lemma request_failure_surrogate_url:
  "scan_cookies (example_env (Inl connection_refused) None) surrogate_url stale_world =
     ([(ascii ''error'', PStr (txt_request_error @ ascii ''Connection refused'')),
       (ascii ''url'', PStr surrogate_url),
       (ascii ''scan_time'', PStr (ascii ''2026-11-04T12:00:01''))],
      \<lparr>doc_txt = Some [],
       console = [txt_critical @
          [39] @ ascii ''utf-8'' @ [39] @ ascii '' codec can'' @ [39]
          @ ascii ''t encode character '' @ [39, 92] @ ascii ''udcff'' @ [39]
          @ ascii '' in position 29: surrogates not allowed'']\<rparr>)"
proof -
  let ?env = "example_env (Inl connection_refused) None"
  have h: "requests_get ?env surrogate_url = Inl (RequestException (ascii ''Connection refused''))"
    by (simp add: example_env_simps connection_refused_def)
  have "\<not> encodable (txt_scan_error_for_url @ surrogate_url @ [10])"
    by (simp add: encodable_append encodable_def surrogate_def surrogate_url_def)
  then have "write_doc_txt ?env
       (error_writes surrogate_url (now_isoformat ?env 1)
          (txt_request_error @ ascii ''Connection refused'')) stale_world =
     (Some (OtherException (unicode_encode_error (txt_scan_error_for_url @ surrogate_url @ [10]))),
      stale_world\<lparr>doc_txt := Some []\<rparr>)"
    by (simp add: write_doc_txt_def error_writes_def example_env_simps)
  then show ?thesis
    using scan_cookies_request_failure [OF disjI1, OF h, of stale_world]
    by (simp add: example_clock stale_world_def unicode_encode_error_surrogate_url)
qed

text \<open>
  The success path with the same URL, where the server answers all the same: the first
  \<open>f.write\<close> of line 86 raises, \<open>doc.txt\<close> is left empty, and the handler of line 136 returns
  its dict, with CPython's text, in place of the report.
\<close>

lemma success_path_surrogate_url:
  "scan_cookies (example_env (Inr [plain_cookie ''a'', strict_cookie]) None) surrogate_url
     stale_world =
     ([(ascii ''error'', PStr (txt_unexpected @
          [39] @ ascii ''utf-8'' @ [39] @ ascii '' codec can'' @ [39]
          @ ascii ''t encode character '' @ [39, 92] @ ascii ''udcff'' @ [39]
          @ ascii '' in position 40: surrogates not allowed'')),
       (ascii ''url'', PStr surrogate_url),
       (ascii ''scan_time'', PStr (ascii ''2026-11-04T12:00:01''))],
      \<lparr>doc_txt = Some [], console = []\<rparr>)"
proof -
  let ?env = "example_env (Inr [plain_cookie ''a'', strict_cookie]) None"
  let ?first = "txt_results_for_url @ surrogate_url @ [10]"
  have p: "encodable txt_results_for_url" "length txt_results_for_url = 40"
    by (simp_all add: encodable_def surrogate_def txt_results_for_url_def ascii_def)
  have "unicode_encode_error (txt_results_for_url @ 56575 # 10 # []) =
          [39] @ ascii ''utf-8'' @ [39] @ ascii '' codec can'' @ [39] @
          ascii ''t encode character '' @ [39, 92] @ ascii ''u'' @ hex4 56575 @ [39] @
          ascii '' in position '' @ digits (length txt_results_for_url) @
          ascii '': surrogates not allowed''"
    by (rule unicode_encode_error_single) (simp_all add: p surrogate_def)
  moreover have "hex4 56575 = ascii ''dcff''"
    by (simp add: hex4_def hex_digit_def ascii_def)
  moreover have "digits 40 = [52, 48]"
    by (simp add: digits.simps [of 40] digits.simps [of 4])
  ultimately have m: "unicode_encode_error ?first =
          [39] @ ascii ''utf-8'' @ [39] @ ascii '' codec can'' @ [39]
          @ ascii ''t encode character '' @ [39, 92] @ ascii ''udcff'' @ [39]
          @ ascii '' in position 40: surrogates not allowed''"
    by (simp add: surrogate_url_def p ascii_def)
  have "\<not> encodable ?first"
    by (simp add: encodable_append encodable_def surrogate_def surrogate_url_def)
  then have "write_doc_txt ?env
       (success_writes surrogate_url t (PInt 200) n ds rs) stale_world =
     (Some (OtherException (unicode_encode_error ?first)), stale_world\<lparr>doc_txt := Some []\<rparr>)"
    for t n ds rs
    by (simp add: write_doc_txt_def success_writes_def example_env_simps)
  then have "scan_cookies ?env surrogate_url stale_world =
     ([(ascii ''error'', PStr (txt_unexpected @ unicode_encode_error ?first)),
       (ascii ''url'', PStr surrogate_url),
       (ascii ''scan_time'', PStr (now_isoformat ?env 1))],
      stale_world\<lparr>doc_txt := Some []\<rparr>)"
    by (intro scan_cookies_write_failure
          [where response = "\<lparr>response_status_code = PInt 200,
                              response_cookies = [plain_cookie ''a'', strict_cookie]\<rparr>"
             and details = "map with_recommendations [plain_info ''a'', strict_info]"
             and site = "[rec_samesite, rec_httponly, rec_secure]"])
       (simp_all add: example_env_simps scan_aggregate_plain_strict)
  then show ?thesis
    by (simp only: m example_clock) (simp add: stale_world_def)
qed

text \<open>
  The success path with a full disk: the report is computed, the \<open>with\<close> block of lines 85
  to 117 empties \<open>doc.txt\<close> and fails to store the text, and the handler of line 136 returns
  its dict in place of the report.
\<close>

lemma success_path_full_disk:
  "scan_cookies (full_disk_env (Inr [plain_cookie ''a'', strict_cookie])) example_url stale_world =
     ([(ascii ''error'', PStr (txt_unexpected @ no_space)),
       (ascii ''url'', PStr example_url),
       (ascii ''scan_time'', PStr (ascii ''2026-11-04T12:00:01''))],
      \<lparr>doc_txt = Some [], console = []\<rparr>)"
proof -
  let ?env = "full_disk_env (Inr [plain_cookie ''a'', strict_cookie])"
  have env: "requests_get ?env example_url =
       Inr \<lparr>response_status_code = PInt 200,
            response_cookies = [plain_cookie ''a'', strict_cookie]\<rparr>"
    "raise_for_status ?env r = None" "open_doc_txt_error ?env = None"
    "store_error ?env stored = Some (no_space, [])"
    for r stored
    by (simp_all add: full_disk_env_def example_env_simps)
  have clock: "now_isoformat ?env 1 = ascii ''2026-11-04T12:00:01''"
    by (simp add: full_disk_env_def example_clock)
  have "write_doc_txt ?env writes stale_world =
          (Some (OtherException no_space), stale_world\<lparr>doc_txt := Some []\<rparr>)" for writes
    by (simp add: write_doc_txt_def env split: prod.splits)
  then have "scan_cookies ?env example_url stale_world =
     ([(ascii ''error'', PStr (txt_unexpected @ no_space)),
       (ascii ''url'', PStr example_url),
       (ascii ''scan_time'', PStr (now_isoformat ?env 1))],
      stale_world\<lparr>doc_txt := Some []\<rparr>)"
    by (intro scan_cookies_write_failure
          [where response = "\<lparr>response_status_code = PInt 200,
                              response_cookies = [plain_cookie ''a'', strict_cookie]\<rparr>"
             and details = "map with_recommendations [plain_info ''a'', strict_info]"
             and site = "[rec_samesite, rec_httponly, rec_secure]"])
       (simp_all add: env scan_aggregate_plain_strict)
  then show ?thesis
    by (simp only: clock) (simp add: stale_world_def)
qed

text \<open>
  C10. The evaluator's result holds no string twice, has at most three elements and is a
  subsequence of the list Secure, HttpOnly, SameSite; so the site-wide list holds none
  but these three strings.
\<close>

theorem recommendations_bounded:
  "distinct (get_cookie_security_recommendations c) \<and>
   length (get_cookie_security_recommendations c) \<le> 3 \<and>
   subseq (get_cookie_security_recommendations c) [rec_secure, rec_httponly, rec_samesite] \<and>
   (scan_aggregate env cookies = Inr (details, site) \<longrightarrow>
      set site \<subseteq> {rec_secure, rec_httponly, rec_samesite})"
proof -
  have "set site \<subseteq> {rec_secure, rec_httponly, rec_samesite}"
    if "scan_aggregate env cookies = Inr (details, site)"
  proof -
    from that obtain infos where
      infos: "list_all2 (\<lambda>c i. cookie_info env c = Inr i) cookies infos"
      using scan_aggregate_Inr_D by blast
    have "site = site_recommendations_spec (map get_cookie_security_recommendations infos)"
      using that scan_aggregate_Inr [OF infos] by simp
    then show ?thesis
      using recommendations_subset by (auto simp: site_recommendations_spec_props)
  qed
  then show ?thesis
    by (simp add: recommendations_distinct recommendations_subseq recommendations_length)
qed

theorem recommendations_bounded_witness:
  "scan_aggregate (example_env (Inr []) None) [plain_cookie ''a'', strict_cookie] =
     Inr (map with_recommendations [plain_info ''a'', strict_info],
          [rec_samesite, rec_httponly, rec_secure]) \<and>
   set [rec_samesite, rec_httponly, rec_secure] \<subseteq> {rec_secure, rec_httponly, rec_samesite} \<and>
   distinct (get_cookie_security_recommendations scenario_a) \<and>
   length (get_cookie_security_recommendations scenario_a) \<le> 3"
  using scan_aggregate_plain_strict [of "example_env (Inr []) None"]
    recommendations_bounded [of scenario_a "example_env (Inr []) None"
      "[plain_cookie ''a'', strict_cookie]" "map with_recommendations [plain_info ''a'', strict_info]"
      "[rec_samesite, rec_httponly, rec_secure]"]
  by simp

end
